theory Spec2Isabelle
  imports Complex_Main
begin

section \<open>Errors and numbers\<close>

text \<open>
  The module \<^verbatim>\<open>funciones_auxiliares.py\<close> is a set of helper functions over pandas
  data frames. Exceptions are values of type \<open>error\<close>; a function that can raise
  returns \<open>error + 'a\<close>.
\<close>

datatype error = ValueError | IndexError | KeyError | TypeError | ZeroDivisionError

text \<open>
  Numbers of type \<^verbatim>\<open>float64\<close>. The special values of IEEE arithmetic (the two
  infinities and NaN) are modelled as they behave in numpy; a finite value is modelled
  by a real number, so rounding is not part of the model, and neither is the sign of
  zero (no division below has a divisor that can be a negative zero).
\<close>

datatype fl = Fin real | PInf | NInf | NaN

fun fl_neg :: "fl \<Rightarrow> fl" where
  "fl_neg (Fin x) = Fin (- x)"
| "fl_neg PInf = NInf"
| "fl_neg NInf = PInf"
| "fl_neg NaN = NaN"

fun fl_add :: "fl \<Rightarrow> fl \<Rightarrow> fl" where
  "fl_add (Fin x) (Fin y) = Fin (x + y)"
| "fl_add NaN b = NaN"
| "fl_add a NaN = NaN"
| "fl_add PInf NInf = NaN"
| "fl_add NInf PInf = NaN"
| "fl_add PInf b = PInf"
| "fl_add a PInf = PInf"
| "fl_add NInf b = NInf"
| "fl_add a NInf = NInf"

definition fl_sub :: "fl \<Rightarrow> fl \<Rightarrow> fl" where
  "fl_sub a b = fl_add a (fl_neg b)"

text \<open>The sign of a value: \<open>None\<close> for NaN.\<close>

fun fl_sign :: "fl \<Rightarrow> real option" where
  "fl_sign (Fin x) = Some (sgn x)"
| "fl_sign PInf = Some 1"
| "fl_sign NInf = Some (- 1)"
| "fl_sign NaN = None"

definition fl_of_sign :: "real \<Rightarrow> fl" where
  "fl_of_sign s = (if s = 0 then NaN else if 0 < s then PInf else NInf)"

fun fl_mul :: "fl \<Rightarrow> fl \<Rightarrow> fl" where
  "fl_mul (Fin x) (Fin y) = Fin (x * y)"
| "fl_mul a b =
     (case (fl_sign a, fl_sign b) of
        (Some s, Some t) \<Rightarrow> fl_of_sign (s * t)
      | _ \<Rightarrow> NaN)"

text \<open>
  Division of numpy scalars and arrays: a zero divisor gives an infinity or NaN (with
  a warning), never an exception.
\<close>

fun fl_div :: "fl \<Rightarrow> fl \<Rightarrow> fl" where
  "fl_div (Fin x) (Fin y) = (if y = 0 then fl_of_sign x else Fin (x / y))"
| "fl_div NaN b = NaN"
| "fl_div a NaN = NaN"
| "fl_div (Fin x) b = Fin 0"
| "fl_div a (Fin y) = (if a = PInf \<longleftrightarrow> 0 \<le> y then PInf else NInf)"
| "fl_div a b = NaN"


text \<open>\<^verbatim>\<open>np.log\<close> and \<^verbatim>\<open>np.sqrt\<close>.\<close>

fun fl_log :: "fl \<Rightarrow> fl" where
  "fl_log (Fin x) = (if x = 0 then NInf else if x < 0 then NaN else Fin (ln x))"
| "fl_log PInf = PInf"
| "fl_log a = NaN"


text \<open>Comparisons: every comparison with NaN is false.\<close>

fun fl_lt :: "fl \<Rightarrow> fl \<Rightarrow> bool" where
  "fl_lt (Fin x) (Fin y) = (x < y)"
| "fl_lt NaN b = False"
| "fl_lt a NaN = False"
| "fl_lt a NInf = False"
| "fl_lt PInf b = False"
| "fl_lt a b = True"

definition fl_eq :: "fl \<Rightarrow> fl \<Rightarrow> bool" where
  "fl_eq a b = (a \<noteq> NaN \<and> a = b)"

definition fl_le :: "fl \<Rightarrow> fl \<Rightarrow> bool" where
  "fl_le a b = (fl_lt a b \<or> fl_eq a b)"





definition fl_sum :: "fl list \<Rightarrow> fl" where
  "fl_sum xs = foldr fl_add xs (Fin 0)"

definition fl_of_int :: "int \<Rightarrow> fl" where
  "fl_of_int i = Fin (of_int i)"

section \<open>Cramer's V of a contingency table\<close>












section \<open>Data frames\<close>

text \<open>
  A cell of a data frame holds a number, a text or an interval (the bins that
  \<^verbatim>\<open>pd.cut\<close> produces); a missing cell (NaN, None) is \<open>None\<close>. A column
  holds cells of one kind, has a dtype and, when its dtype is \<^verbatim>\<open>category\<close>, the
  list of its categories. A data frame is the list of its named columns, in the order
  of \<^verbatim>\<open>df.columns\<close>; column names are unique and all columns have the same number
  of rows. The library calls follow pandas 2.x.
\<close>

datatype val = Num real | Str string | Ivl real real

datatype cells =
    NumCells "real option list"
  | StrCells "string option list"
  | IvlCells "(real \<times> real) option list"

datatype dtype = Object | Category | Int64 | Float64 | Bool

record column =
  dtype :: dtype
  cells :: cells
  categories :: "val list"

type_synonym dataset = "(string \<times> column) list"

fun vals :: "cells \<Rightarrow> val option list" where
  "vals (NumCells xs) = map (map_option Num) xs"
| "vals (StrCells xs) = map (map_option Str) xs"
| "vals (IvlCells xs) = map (map_option (\<lambda>(a, b). Ivl a b)) xs"

definition col_values :: "column \<Rightarrow> val option list" where
  "col_values c = vals (cells c)"

text \<open>\<^verbatim>\<open>df[name]\<close> raises \<^verbatim>\<open>KeyError\<close> when there is no such column.\<close>

definition lookup :: "dataset \<Rightarrow> string \<Rightarrow> error + column" where
  "lookup df name = (case map_of df name of None \<Rightarrow> Inl KeyError | Some c \<Rightarrow> Inr c)"

text \<open>\<^verbatim>\<open>df[name] = c\<close> for a column that exists: it is replaced where it stands.\<close>

definition assign :: "dataset \<Rightarrow> string \<Rightarrow> column \<Rightarrow> dataset" where
  "assign df name c = map (\<lambda>(n, old). if n = name then (n, c) else (n, old)) df"

text \<open>\<^verbatim>\<open>s.dropna()\<close>: the cells that are present.\<close>

definition dropna :: "'a option list \<Rightarrow> 'a list" where
  "dropna xs = concat (map (\<lambda>x. case x of None \<Rightarrow> [] | Some v \<Rightarrow> [v]) xs)"

text \<open>
  The order in which pandas sorts group keys: numbers by value, texts by code point,
  intervals by their left and then right end. Values of different kinds never meet in
  one column.
\<close>

fun str_le :: "string \<Rightarrow> string \<Rightarrow> bool" where
  "str_le [] t = True"
| "str_le (c # cs) [] = False"
| "str_le (c # cs) (d # ds) =
     ((of_char c :: nat) < of_char d \<or> (c = d \<and> str_le cs ds))"

fun val_le :: "val \<Rightarrow> val \<Rightarrow> bool" where
  "val_le (Num x) (Num y) = (x \<le> y)"
| "val_le (Str s) (Str t) = str_le s t"
| "val_le (Ivl a b) (Ivl c d) = (a < c \<or> (a = c \<and> b \<le> d))"
| "val_le (Num x) v = True"
| "val_le (Str s) (Ivl c d) = True"
| "val_le u v = False"

fun insert_val :: "val \<Rightarrow> val list \<Rightarrow> val list" where
  "insert_val v [] = [v]"
| "insert_val v (u # us) = (if val_le v u then v # u # us else u # insert_val v us)"

definition sort_vals :: "val list \<Rightarrow> val list" where
  "sort_vals vs = foldr insert_val vs []"

text \<open>The sorted distinct values of a list of cells, missing cells dropped.\<close>

definition uniques :: "val option list \<Rightarrow> val list" where
  "uniques xs = sort_vals (remdups (dropna xs))"

section \<open>The column classifier\<close>

text \<open>
  What the functions print: \<^verbatim>\<open>Faltan argumentos por pasar a la funcion\<close>,
  \<^verbatim>\<open>Hace falta pasar argumentos a la funcion\<close> and
  \<^verbatim>\<open>No existen variables con valores nulos\<close>.
\<close>

datatype message = Faltan_argumentos | Hace_falta_argumentos | No_existen_nulos

text \<open>
  \<^verbatim>\<open>dame_variables_categoricas\<close> returns the integer 1 or a pair of lists.
\<close>

datatype clasificacion = PyInt int | Listas "string list" "string list"

text \<open>
  \<^verbatim>\<open>int(len(np.unique(dataset[i].dropna(axis=0, how='all'))))\<close>: the number of
  distinct values that are present.
\<close>

definition unicos :: "column \<Rightarrow> int" where
  "unicos c = int (length (remdups (dropna (col_values c))))"

text \<open>
  The loop over \<^verbatim>\<open>dataset.columns\<close>, with the two lists it appends to.
\<close>

fun clasificar ::
  "dataset \<Rightarrow> int \<Rightarrow> string list \<Rightarrow> string list \<Rightarrow> string list
   \<Rightarrow> error + string list \<times> string list" where
  "clasificar dataset max_unicos [] lista_variables_categoricas other =
     Inr (lista_variables_categoricas, other)"
| "clasificar dataset max_unicos (i # rest) lista_variables_categoricas other =
     (case lookup dataset i of
        Inl e \<Rightarrow> Inl e
      | Inr c \<Rightarrow>
          if dtype c \<in> {Object, Category} \<or> unicos c < max_unicos
          then clasificar dataset max_unicos rest (lista_variables_categoricas @ [i]) other
          else clasificar dataset max_unicos rest lista_variables_categoricas (other @ [i]))"

definition dame_variables_categoricas ::
  "dataset option \<Rightarrow> int \<Rightarrow> message list \<times> (error + clasificacion)" where
  "dame_variables_categoricas dataset max_unicos =
     (case dataset of
        None \<Rightarrow> ([Faltan_argumentos], Inr (PyInt 1))
      | Some d \<Rightarrow>
          (case clasificar d max_unicos (map fst d) [] [] of
             Inl e \<Rightarrow> ([], Inl e)
           | Inr (cats, other) \<Rightarrow> ([], Inr (Listas cats other))))"

section \<open>The correlation matrix\<close>

text \<open>
  \<^verbatim>\<open>get_corr_matrix\<close> computes \<^verbatim>\<open>dataset.corr(method=metodo)\<close>, sets the
  diagonal to zero, draws the heat map and returns 0. The correlation of pandas is a
  parameter \<open>corr\<close> of the model; the matrix handed to \<^verbatim>\<open>sns.heatmap\<close> is part
  of the result.
\<close>

fun zero_diagonal :: "nat \<Rightarrow> fl list list \<Rightarrow> error + fl list list" where
  "zero_diagonal i [] = Inr []"
| "zero_diagonal i (row # rows) =
     (if i < length row
      then (case zero_diagonal (Suc i) rows of
              Inl e \<Rightarrow> Inl e
            | Inr rows' \<Rightarrow> Inr (row[i := Fin 0] # rows'))
      else Inl IndexError)"

definition get_corr_matrix ::
  "(dataset \<Rightarrow> string \<Rightarrow> error + fl list list) \<Rightarrow> dataset option \<Rightarrow> string
   \<Rightarrow> message list \<times> (error + int \<times> fl list list option)" where
  "get_corr_matrix corr dataset metodo =
     (case dataset of
        None \<Rightarrow> ([Hace_falta_argumentos], Inr (1, None))
      | Some d \<Rightarrow>
          (case corr d metodo of
             Inl e \<Rightarrow> ([], Inl e)
           | Inr c \<Rightarrow>
               (case zero_diagonal 0 c of
                  Inl e \<Rightarrow> ([], Inl e)
                | Inr c' \<Rightarrow> ([], Inr (0, Some c')))))"

section \<open>The matrix of Cramer's V\<close>









section \<open>Weight of evidence and information value\<close>

text \<open>
  \<^verbatim>\<open>pd.cut(x, bins=b, duplicates='drop')\<close> for an integer \<open>b\<close>: \<open>b\<close> bins of
  equal width between the least and the greatest value, closed on the right, the
  lowest edge moved down by 0.1 percent of the range so that the least value falls in
  the first bin. The result is a categorical column of intervals whose categories are
  all the bins. The edges are computed exactly, and the labels are the edges (pandas
  rounds the labels of the bins for display). A bin count below 1 and a column with no
  rows raise \<^verbatim>\<open>ValueError\<close>, a column that is not numeric \<^verbatim>\<open>TypeError\<close>. When
  no value is present all edges are NaN: with one bin the only label is a null interval,
  which a categorical rejects (\<^verbatim>\<open>ValueError\<close>); with more bins
  \<^verbatim>\<open>duplicates='drop'\<close> leaves a single edge, and the result has no category.
\<close>

definition linspace :: "real \<Rightarrow> real \<Rightarrow> nat \<Rightarrow> real list" where
  "linspace a b n = map (\<lambda>j. a + real j * (b - a) / real n) [0..<Suc n]"

definition bin_edges :: "real \<Rightarrow> real \<Rightarrow> nat \<Rightarrow> real list" where
  "bin_edges mn mx n =
     (if mn = mx
      then linspace (mn - (if mn \<noteq> 0 then 0.001 * \<bar>mn\<bar> else 0.001))
                    (mx + (if mx \<noteq> 0 then 0.001 * \<bar>mx\<bar> else 0.001)) n
      else (case linspace mn mx n of
              [] \<Rightarrow> []
            | e # es \<Rightarrow> (e - (mx - mn) * 0.001) # es))"

definition bins_of :: "real list \<Rightarrow> (real \<times> real) list" where
  "bins_of edges = zip edges (tl edges)"

definition bin_of :: "(real \<times> real) list \<Rightarrow> real \<Rightarrow> (real \<times> real) option" where
  "bin_of bs x = find (\<lambda>(lo, hi). lo < x \<and> x \<le> hi) bs"

definition pd_cut :: "column \<Rightarrow> int \<Rightarrow> error + column" where
  "pd_cut c b =
     (if b < 1 then Inl ValueError
      else case cells c of
        NumCells xs \<Rightarrow>
          (if xs = [] then Inl ValueError
           else case dropna xs of
             [] \<Rightarrow>
               if b = 1 then Inl ValueError
               else Inr \<lparr>dtype = Category, cells = IvlCells (map (\<lambda>x. None) xs),
                         categories = []\<rparr>
           | v # vs \<Rightarrow>
               let bs = bins_of (bin_edges (foldl min v vs) (foldl max v vs) (nat b))
               in Inr \<lparr>dtype = Category,
                       cells = IvlCells (map (\<lambda>x. case x of None \<Rightarrow> None
                                                   | Some y \<Rightarrow> bin_of bs y) xs),
                       categories = map (\<lambda>(lo, hi). Ivl lo hi) bs\<rparr>)
      | StrCells xs \<Rightarrow> (if xs = [] then Inl ValueError else Inl TypeError)
      | IvlCells xs \<Rightarrow> (if xs = [] then Inl ValueError else Inl TypeError))"

text \<open>
  The keys of \<^verbatim>\<open>df.groupby(variable)\<close>, in the order of the result: the sorted
  values that are present, or all the categories of a categorical column (also those
  with no row).
\<close>

definition group_keys :: "column \<Rightarrow> val list" where
  "group_keys c = (if dtype c = Category then categories c else uniques (col_values c))"

record woe_row =
  key :: val
  buenos :: int
  malos :: int
  dist_buenos :: fl
  dist_malos :: fl
  WoE :: fl
  IV :: fl

text \<open>
  \<^verbatim>\<open>(x == t).sum()\<close> over the target cells \<open>x\<close> of the rows of one group.
\<close>

definition count_in_group :: "(val option \<times> val option) list \<Rightarrow> val \<Rightarrow> real \<Rightarrow> int" where
  "count_in_group rows g t =
     int (length (filter (\<lambda>(v, y). v = Some g \<and> y = Some (Num t)) rows))"

definition count_target :: "val option list \<Rightarrow> real \<Rightarrow> int" where
  "count_target ys t = int (length (filter (\<lambda>y. y = Some (Num t)) ys))"

text \<open>\<^verbatim>\<open>s.replace(0, np.nan)\<close> and \<^verbatim>\<open>s.replace([np.inf, -np.inf], 0)\<close> on one cell.\<close>

definition replace_zero_nan :: "fl \<Rightarrow> fl" where
  "replace_zero_nan x = (if fl_eq x (Fin 0) then NaN else x)"

definition replace_inf_zero :: "fl \<Rightarrow> fl" where
  "replace_inf_zero x = (if x = PInf \<or> x = NInf then Fin 0 else x)"

text \<open>\<^verbatim>\<open>s.sum()\<close> of pandas skips the missing cells.\<close>

definition nansum :: "fl list \<Rightarrow> fl" where
  "nansum xs = fl_sum (filter (\<lambda>x. x \<noteq> NaN) xs)"

definition woe_row_of ::
  "(val option \<times> val option) list \<Rightarrow> int \<Rightarrow> int \<Rightarrow> val \<Rightarrow> woe_row" where
  "woe_row_of rows total_buenos total_malos g =
     (let b = count_in_group rows g 0;
          m = count_in_group rows g 1;
          db = fl_div (fl_of_int b) (fl_of_int total_buenos);
          dm = fl_div (fl_of_int m) (fl_of_int total_malos);
          w = fl_log (fl_div db (replace_zero_nan dm))
      in \<lparr>key = g, buenos = b, malos = m, dist_buenos = db, dist_malos = dm,
          WoE = replace_inf_zero w, IV = fl_mul (fl_sub db dm) w\<rparr>)"

text \<open>Lines 143 to 164 of the source: the table and the total, from the data frame.\<close>

definition woe_table :: "dataset \<Rightarrow> string \<Rightarrow> string \<Rightarrow> error + woe_row list \<times> fl" where
  "woe_table df variable target =
     (case lookup df variable of
        Inl e \<Rightarrow> Inl e
      | Inr vc \<Rightarrow>
          (case lookup df target of
             Inl e \<Rightarrow> Inl e
           | Inr tc \<Rightarrow>
               let rows = zip (col_values vc) (col_values tc);
                   total_buenos = count_target (col_values tc) 0;
                   total_malos = count_target (col_values tc) 1;
                   tabla = map (woe_row_of rows total_buenos total_malos) (group_keys vc)
               in Inr (tabla, nansum (map IV tabla))))"

text \<open>
  \<^verbatim>\<open>iv_woe\<close>. The data frame is the caller's object, and line 140 assigns to one of
  its columns, so the function returns the data frame as it leaves it, next to its
  result. \<^verbatim>\<open>bins\<close> is \<^verbatim>\<open>None\<close> or an integer; \<^verbatim>\<open>if bins:\<close> holds for an
  integer other than 0.
\<close>

definition iv_woe ::
  "dataset \<Rightarrow> string \<Rightarrow> string \<Rightarrow> int option
   \<Rightarrow> dataset \<times> (error + woe_row list \<times> fl)" where
  "iv_woe df variable target bins =
     (case bins of
        None \<Rightarrow> (df, woe_table df variable target)
      | Some b \<Rightarrow>
          if b = 0 then (df, woe_table df variable target)
          else
            (case lookup df variable of
               Inl e \<Rightarrow> (df, Inl e)
             | Inr c \<Rightarrow>
                 (case pd_cut c b of
                    Inl e \<Rightarrow> (df, Inl e)
                  | Inr c' \<Rightarrow>
                      let df' = assign df variable c'
                      in (df', woe_table df' variable target))))"

section \<open>Summaries of missing values and of outliers against the target\<close>

text \<open>
  \<^verbatim>\<open>s.value_counts(normalize=True)\<close>: the values that are present with their share
  of the present cells, the most frequent first (values of equal frequency in the order
  in which they first appear).
\<close>

definition first_seen :: "'a list \<Rightarrow> 'a list" where
  "first_seen vs = rev (remdups (rev vs))"

definition value_counts :: "val option list \<Rightarrow> (val \<times> real) list" where
  "value_counts ys =
     (let vs = dropna ys
      in map (\<lambda>v. (v, real (count_list vs v) / real (length vs)))
             (sort_key (\<lambda>v. - int (count_list vs v)) (first_seen vs)))"

text \<open>
  The frame \<^verbatim>\<open>pd.DataFrame(s.value_counts(normalize=True).reset_index()).T\<close> after
  the assignment to its \<^verbatim>\<open>columns\<close> (lines 214 to 217 and 236 to 239), as the list
  of its labelled rows; a row is the list of its cells, each under its column label.
  \<^verbatim>\<open>reset_index\<close> gives the columns \<^verbatim>\<open>target\<close> (the values) and
  \<^verbatim>\<open>proportion\<close> (their shares), and raises \<^verbatim>\<open>ValueError\<close> when the two names
  are the same. The transposed frame has one column per value. The new labels are read
  from the cells \<^verbatim>\<open>iloc[0,0]\<close> and \<^verbatim>\<open>iloc[0,1]\<close>, which raises
  \<^verbatim>\<open>IndexError\<close> when there are fewer than two columns; assigning two labels to more
  than two columns raises \<^verbatim>\<open>ValueError\<close>.
\<close>

definition target_block ::
  "string \<Rightarrow> val option list \<Rightarrow> error + (string \<times> (val \<times> val) list) list" where
  "target_block target ys =
     (if target = ''proportion'' then Inl ValueError
      else case value_counts ys of
        [] \<Rightarrow> Inl IndexError
      | [a] \<Rightarrow> Inl IndexError
      | [(v0, p0), (v1, p1)] \<Rightarrow>
          Inr [(target, [(v0, v0), (v1, v1)]),
               (''proportion'', [(v0, Num p0), (v1, Num p1)])]
      | a # b # c # rest \<Rightarrow> Inl ValueError)"

text \<open>
  A row of the frames that the two summaries return: the cells under the columns named
  by target values, and the three columns that the functions add.
\<close>

record resumen_row =
  target_cells :: "(val \<times> val) list"
  variable :: string
  porcentaje_sum_null_values :: fl

record null_row = resumen_row +
  sum_null_values :: int

record outlier_row = resumen_row +
  sum_outlier_values :: int

text \<open>The target cells of the rows that a mask selects.\<close>

definition masked :: "bool list \<Rightarrow> 'a list \<Rightarrow> 'a list" where
  "masked sel ys = map snd (filter fst (zip sel ys))"

definition isnull :: "column \<Rightarrow> bool list" where
  "isnull c = map (\<lambda>x. x = None) (col_values c)"

definition count_true :: "bool list \<Rightarrow> int" where
  "count_true sel = int (length (filter (\<lambda>b. b) sel))"

text \<open>
  The loop of \<^verbatim>\<open>get_percent_null_values_target\<close> with the frame \<^verbatim>\<open>pd_final\<close>
  that it extends. \<^verbatim>\<open>drop('index', axis=0, errors='ignore')\<close> removes the rows
  labelled \<^verbatim>\<open>index\<close>, if any.
\<close>

fun null_loop ::
  "dataset \<Rightarrow> string \<Rightarrow> string list \<Rightarrow> null_row list \<Rightarrow> error + null_row list" where
  "null_loop pd_loan target [] pd_final = Inr pd_final"
| "null_loop pd_loan target (i # rest) pd_final =
     (case lookup pd_loan i of
        Inl e \<Rightarrow> Inl e
      | Inr c \<Rightarrow>
          if count_true (isnull c) > 0
          then
            (case lookup pd_loan target of
               Inl e \<Rightarrow> Inl e
             | Inr tc \<Rightarrow>
                 (case target_block target (masked (isnull c) (col_values tc)) of
                    Inl e \<Rightarrow> Inl e
                  | Inr block \<Rightarrow>
                      null_loop pd_loan target rest
                        (pd_final @
                         map (\<lambda>(label, cs).
                                \<lparr>target_cells = cs, variable = i,
                                 porcentaje_sum_null_values =
                                   fl_div (fl_of_int (count_true (isnull c)))
                                          (fl_of_int (int (length (col_values c)))),
                                 sum_null_values = count_true (isnull c)\<rparr>)
                             (filter (\<lambda>(label, cs). label \<noteq> ''index'') block))))
          else null_loop pd_loan target rest pd_final)"

definition get_percent_null_values_target ::
  "dataset \<Rightarrow> string list \<Rightarrow> string \<Rightarrow> message list \<times> (error + null_row list)" where
  "get_percent_null_values_target pd_loan list_var_continuous target =
     (case null_loop pd_loan target list_var_continuous [] of
        Inl e \<Rightarrow> ([], Inl e)
      | Inr pd_final \<Rightarrow> (if pd_final = [] then [No_existen_nulos] else [], Inr pd_final))"

text \<open>
  \<^verbatim>\<open>s.mean()\<close> and \<^verbatim>\<open>s.std()\<close> of a numeric column skip the missing cells; the
  standard deviation divides by the number of present cells less one.
\<close>

definition series_mean :: "real list \<Rightarrow> fl" where
  "series_mean vs = (if vs = [] then NaN else Fin (sum_list vs / real (length vs)))"

definition series_std :: "real list \<Rightarrow> fl" where
  "series_std vs =
     (if length vs < 2 then NaN
      else Fin (sqrt (sum_list (map (\<lambda>x. (x - sum_list vs / real (length vs))\<^sup>2) vs)
                      / real (length vs - 1))))"

text \<open>
  The cells of a column as numbers, for \<^verbatim>\<open>mean\<close>, \<^verbatim>\<open>std\<close> and the comparisons:
  a column of texts or intervals raises \<^verbatim>\<open>TypeError\<close> (a column with no rows has
  nothing to convert).
\<close>

definition numeric_cells :: "column \<Rightarrow> error + real option list" where
  "numeric_cells c =
     (case cells c of
        NumCells xs \<Rightarrow> Inr xs
      | StrCells xs \<Rightarrow> (if xs = [] then Inr [] else Inl TypeError)
      | IvlCells xs \<Rightarrow> (if xs = [] then Inr [] else Inl TypeError))"

text \<open>
  The masks \<^verbatim>\<open>(s >= left) & (s <= right)\<close> and \<^verbatim>\<open>(s < left) | (s > right)\<close>;
  a missing cell is in neither.
\<close>

definition in_interval :: "fl \<Rightarrow> fl \<Rightarrow> real option \<Rightarrow> bool" where
  "in_interval left right x =
     (case x of None \<Rightarrow> False | Some v \<Rightarrow> fl_le left (Fin v) \<and> fl_le (Fin v) right)"

definition out_interval :: "fl \<Rightarrow> fl \<Rightarrow> real option \<Rightarrow> bool" where
  "out_interval left right x =
     (case x of None \<Rightarrow> False | Some v \<Rightarrow> fl_lt (Fin v) left \<or> fl_lt right (Fin v))"

text \<open>
  The limits \<^verbatim>\<open>left\<close> and \<^verbatim>\<open>right\<close> of lines 203 to 207, and the mask of
  the rows outside them.
\<close>

definition limits :: "fl \<Rightarrow> real option list \<Rightarrow> fl \<times> fl" where
  "limits multiplier xs =
     (let series_mean = series_mean (dropna xs);
          series_std = series_std (dropna xs);
          std_amp = fl_mul multiplier series_std
      in (fl_sub series_mean std_amp, fl_add series_mean std_amp))"

definition excess_mask :: "fl \<Rightarrow> real option list \<Rightarrow> bool list" where
  "excess_mask multiplier xs =
     (case limits multiplier xs of (left, right) \<Rightarrow> map (out_interval left right) xs)"

definition goods_mask :: "fl \<Rightarrow> real option list \<Rightarrow> bool list" where
  "goods_mask multiplier xs =
     (case limits multiplier xs of (left, right) \<Rightarrow> map (in_interval left right) xs)"

text \<open>
  The loop of \<^verbatim>\<open>get_deviation_of_mean_perc\<close>. The two shares are quotients of
  Python integers, so a column with no rows raises \<^verbatim>\<open>ZeroDivisionError\<close>.
  \<^verbatim>\<open>drop(target, axis=0)\<close> removes the rows labelled with the name of the target
  and raises \<^verbatim>\<open>KeyError\<close> when there is none.
\<close>

fun outlier_loop ::
  "dataset \<Rightarrow> string \<Rightarrow> fl \<Rightarrow> string list \<Rightarrow> outlier_row list
   \<Rightarrow> error + outlier_row list" where
  "outlier_loop pd_loan target multiplier [] pd_final = Inr pd_final"
| "outlier_loop pd_loan target multiplier (i # rest) pd_final =
     (case lookup pd_loan i of
        Inl e \<Rightarrow> Inl e
      | Inr c \<Rightarrow>
          (case numeric_cells c of
             Inl e \<Rightarrow> Inl e
           | Inr xs \<Rightarrow>
               let size_s = int (length xs) in
                 if size_s = 0 then Inl ZeroDivisionError
                 else
                   let perc_goods = fl_div (fl_of_int (count_true (goods_mask multiplier xs)))
                                           (fl_of_int size_s);
                       perc_excess = fl_div (fl_of_int (count_true (excess_mask multiplier xs)))
                                            (fl_of_int size_s)
                   in
                     if fl_lt (Fin 0) perc_excess
                     then
                       (case lookup pd_loan target of
                          Inl e \<Rightarrow> Inl e
                        | Inr tc \<Rightarrow>
                            (case target_block target
                                    (masked (excess_mask multiplier xs) (col_values tc)) of
                               Inl e \<Rightarrow> Inl e
                             | Inr block \<Rightarrow>
                                 if target \<notin> set (map fst block) then Inl KeyError
                                 else
                                   outlier_loop pd_loan target multiplier rest
                                     (pd_final @
                                      map (\<lambda>(label, cs).
                                             \<lparr>target_cells = cs, variable = i,
                                              porcentaje_sum_null_values = perc_excess,
                                              sum_outlier_values =
                                                count_true (excess_mask multiplier xs)\<rparr>)
                                          (filter (\<lambda>(label, cs). label \<noteq> target) block))))
                     else outlier_loop pd_loan target multiplier rest pd_final))"

definition get_deviation_of_mean_perc ::
  "dataset \<Rightarrow> string list \<Rightarrow> string \<Rightarrow> fl
   \<Rightarrow> message list \<times> (error + outlier_row list)" where
  "get_deviation_of_mean_perc pd_loan list_var_continuous target multiplier =
     (case outlier_loop pd_loan target multiplier list_var_continuous [] of
        Inl e \<Rightarrow> ([], Inl e)
      | Inr pd_final \<Rightarrow> (if pd_final = [] then [No_existen_nulos] else [], Inr pd_final))"

section \<open>Example data\<close>

text \<open>The data frame of the end-to-end example: a target and a text column.\<close>

definition ex_ab :: dataset where
  "ex_ab =
     [(''target'', \<lparr>dtype = Int64, cells = NumCells [Some 0, Some 0, Some 1, Some 1],
                    categories = []\<rparr>),
      (''cat'', \<lparr>dtype = Object,
                 cells = StrCells [Some ''A'', Some ''A'', Some ''B'', Some ''B''],
                 categories = []\<rparr>)]"

text \<open>
  A variable with three groups: one with no bad row, one with as many good as bad
  rows, one with no good row.
\<close>

definition ex_tipo :: dataset where
  "ex_tipo =
     [(''tipo'', \<lparr>dtype = Object,
                  cells = StrCells [Some ''x'', Some ''y'', Some ''y'', Some ''z''],
                  categories = []\<rparr>),
      (''target'', \<lparr>dtype = Int64, cells = NumCells [Some 0, Some 0, Some 1, Some 1],
                    categories = []\<rparr>)]"

definition ex_tipo_tabla :: "woe_row list" where
  "ex_tipo_tabla =
     [\<lparr>key = Str ''x'', buenos = 1, malos = 0, dist_buenos = Fin (1/2), dist_malos = Fin 0,
       WoE = NaN, IV = NaN\<rparr>,
      \<lparr>key = Str ''y'', buenos = 1, malos = 1, dist_buenos = Fin (1/2),
       dist_malos = Fin (1/2), WoE = Fin 0, IV = Fin 0\<rparr>,
      \<lparr>key = Str ''z'', buenos = 0, malos = 1, dist_buenos = Fin 0, dist_malos = Fin (1/2),
       WoE = Fin 0, IV = PInf\<rparr>]"

text \<open>A numeric variable, to be cut into two bins.\<close>

definition ex_num :: dataset where
  "ex_num =
     [(''x'', \<lparr>dtype = Int64, cells = NumCells [Some 1, Some 2, Some 3, Some 4],
               categories = []\<rparr>),
      (''target'', \<lparr>dtype = Int64, cells = NumCells [Some 0, Some 1, Some 0, Some 1],
                    categories = []\<rparr>)]"

text \<open>
  Ten rows; the column \<open>x\<close> is missing in two of them. In \<open>ex_nulos_dos\<close> the two
  rows have different target values, in \<open>ex_nulos_uno\<close> the same.
\<close>

definition ex_nulos_dos :: dataset where
  "ex_nulos_dos =
     [(''x'', \<lparr>dtype = Float64,
               cells = NumCells [Some 1, None, Some 3, Some 4, None,
                                 Some 1, Some 1, Some 1, Some 1, Some 1],
               categories = []\<rparr>),
      (''target'', \<lparr>dtype = Int64,
                    cells = NumCells [Some 0, Some 1, Some 0, Some 1, Some 0,
                                      Some 0, Some 0, Some 0, Some 0, Some 0],
                    categories = []\<rparr>)]"

definition ex_nulos_uno :: dataset where
  "ex_nulos_uno =
     [(''x'', \<lparr>dtype = Float64,
               cells = NumCells [Some 1, None, Some 3, Some 4, None,
                                 Some 1, Some 1, Some 1, Some 1, Some 1],
               categories = []\<rparr>),
      (''target'', \<lparr>dtype = Int64,
                    cells = NumCells [Some 0, Some 0, Some 0, Some 1, Some 0,
                                      Some 0, Some 0, Some 0, Some 0, Some 0],
                    categories = []\<rparr>)]"

text \<open>
  Three rows with mean 2 and standard deviation 2; with the multiplier 1/2 the first
  and the last row are outliers, and both have the target value 1.
\<close>

definition ex_atipicos :: dataset where
  "ex_atipicos =
     [(''x'', \<lparr>dtype = Float64, cells = NumCells [Some 0, Some 2, Some 4],
               categories = []\<rparr>),
      (''target'', \<lparr>dtype = Int64, cells = NumCells [Some 1, Some 0, Some 1],
                    categories = []\<rparr>)]"


section \<open>Notions used in the statements\<close>






section \<open>Properties of the column classifier\<close>

text \<open>The test of line 38, on the column that a name stands for.\<close>

definition es_categorica :: "dataset \<Rightarrow> int \<Rightarrow> string \<Rightarrow> bool" where
  "es_categorica ds mu i =
     (case map_of ds i of
        None \<Rightarrow> False
      | Some c \<Rightarrow> dtype c \<in> {Object, Category} \<or> unicos c < mu)"

lemma clasificar_filter:
  "set names \<subseteq> fst ` set ds \<Longrightarrow>
   clasificar ds mu names cats other =
     Inr (cats @ filter (es_categorica ds mu) names,
          other @ filter (\<lambda>i. \<not> es_categorica ds mu i) names)"
proof (induction names arbitrary: cats other)
  case Nil
  then show ?case by simp
next
  case (Cons i rest)
  from Cons.prems obtain c where c: "map_of ds i = Some c"
    by (cases "map_of ds i") (auto simp: map_of_eq_None_iff)
  have rest: "set rest \<subseteq> fst ` set ds" using Cons.prems by simp
  show ?case using Cons.IH [OF rest] c by (simp add: lookup_def es_categorica_def)
qed

text \<open>
  C4. For a data frame (with unique column names) and a threshold, the classifier
  returns two lists without repetitions that have no name in common and together hold
  exactly the column names; a column is in the first list if and only if its dtype is
  \<^verbatim>\<open>object\<close> or \<^verbatim>\<open>category\<close> or it has fewer distinct present values than the
  threshold.
\<close>

theorem dame_variables_categoricas_partition:
  assumes "distinct (map fst ds)"
  shows "\<exists>cats other.
           dame_variables_categoricas (Some ds) mu = ([], Inr (Listas cats other))
         \<and> distinct cats \<and> distinct other
         \<and> set cats \<inter> set other = {}
         \<and> set cats \<union> set other = fst ` set ds
         \<and> (\<forall>(i, c) \<in> set ds.
               i \<in> set cats \<longleftrightarrow> dtype c \<in> {Object, Category} \<or> unicos c < mu)"
proof -
  let ?cats = "filter (es_categorica ds mu) (map fst ds)"
  let ?other = "filter (\<lambda>i. \<not> es_categorica ds mu i) (map fst ds)"
  have run: "dame_variables_categoricas (Some ds) mu = ([], Inr (Listas ?cats ?other))"
    by (simp add: dame_variables_categoricas_def clasificar_filter)
  have dist: "distinct ?cats" "distinct ?other" using assms by simp_all
  have disj: "set ?cats \<inter> set ?other = {}" by auto
  have un: "set ?cats \<union> set ?other = fst ` set ds" by auto
  have crit: "\<forall>(i, c) \<in> set ds.
               i \<in> set ?cats \<longleftrightarrow> dtype c \<in> {Object, Category} \<or> unicos c < mu"
  proof (clarify)
    fix i c assume ic: "(i, c) \<in> set ds"
    then have "map_of ds i = Some c" using assms by simp
    then show "i \<in> set ?cats \<longleftrightarrow> dtype c \<in> {Object, Category} \<or> unicos c < mu"
      using ic by (auto simp: es_categorica_def intro: rev_image_eqI)
  qed
  from run dist disj un crit show ?thesis by blast
qed

theorem dame_variables_categoricas_partition_witness:
  "distinct (map fst ex_num)
   \<and> (\<exists>cats other.
         dame_variables_categoricas (Some ex_num) 3 = ([], Inr (Listas cats other))
       \<and> distinct cats \<and> distinct other
       \<and> set cats \<inter> set other = {}
       \<and> set cats \<union> set other = fst ` set ex_num
       \<and> (\<forall>(i, c) \<in> set ex_num.
             i \<in> set cats \<longleftrightarrow> dtype c \<in> {Object, Category} \<or> unicos c < 3))"
proof -
  have d: "distinct (map fst ex_num)" by (simp add: ex_num_def)
  from d dame_variables_categoricas_partition [OF d, of 3] show ?thesis by blast
qed

section \<open>The missing data frame\<close>

text \<open>
  C8. Without a data frame, \<^verbatim>\<open>dame_variables_categoricas\<close> and
  \<^verbatim>\<open>get_corr_matrix\<close> print their message and return the integer 1, and raise
  nothing; with a data frame, the first never returns an integer, and the second
  returns 0 whenever it returns.
\<close>

theorem missing_dataset_sentinel:
  "dame_variables_categoricas None max_unicos = ([Faltan_argumentos], Inr (PyInt 1))
   \<and> get_corr_matrix corr None metodo = ([Hace_falta_argumentos], Inr (1, None))
   \<and> snd (dame_variables_categoricas (Some d) max_unicos) \<noteq> Inr (PyInt 1)
   \<and> (case snd (get_corr_matrix corr (Some d) metodo) of
         Inl e \<Rightarrow> True
       | Inr (v, drawn) \<Rightarrow> v = 0)
   \<and> snd (get_corr_matrix corr (Some d) metodo) \<noteq> Inr (1, drawn')"
proof -
  have a: "snd (dame_variables_categoricas (Some d) max_unicos) \<noteq> Inr (PyInt 1)"
    by (simp add: dame_variables_categoricas_def split: sum.splits prod.splits)
  have b: "(case snd (get_corr_matrix corr (Some d) metodo) of
              Inl e \<Rightarrow> True
            | Inr (v, drawn) \<Rightarrow> v = 0)"
    by (simp add: get_corr_matrix_def split: sum.splits prod.splits)
  have c: "snd (get_corr_matrix corr (Some d) metodo) \<noteq> Inr (1, drawn')"
    by (simp add: get_corr_matrix_def split: sum.splits prod.splits)
  from a b c show ?thesis
    by (simp add: dame_variables_categoricas_def get_corr_matrix_def)
qed

section \<open>Properties of the weight of evidence\<close>

lemmas iv_woe_eval =
  iv_woe_def woe_table_def lookup_def col_values_def group_keys_def uniques_def
  dropna_def sort_vals_def woe_row_of_def count_in_group_def count_target_def fl_of_int_def
  replace_zero_nan_def replace_inf_zero_def fl_eq_def fl_sub_def nansum_def fl_sum_def
  fl_of_sign_def Let_def

lemma count_in_group_le: "count_in_group (zip xs ys) g t \<le> count_target ys t"
proof (induction xs arbitrary: ys)
  case Nil
  then show ?case by (simp add: count_in_group_def count_target_def)
next
  case (Cons x xs)
  show ?case
  proof (cases ys)
    case Nil
    then show ?thesis by (simp add: count_in_group_def count_target_def)
  next
    case (Cons y ys')
    with Cons.IH [of ys'] show ?thesis
      by (auto simp: count_in_group_def count_target_def)
  qed
qed

lemma count_in_group_nonneg: "0 \<le> count_in_group rows g t"
  by (simp add: count_in_group_def)

text \<open>A share is missing (the total is 0) or a number that is not negative.\<close>

lemma share_shape:
  assumes "0 \<le> b" and "b \<le> tot"
  shows "fl_div (fl_of_int b) (fl_of_int tot) = NaN
       \<or> (\<exists>g\<ge>0. fl_div (fl_of_int b) (fl_of_int tot) = Fin g)"
  using assms by (auto simp: fl_of_int_def fl_of_sign_def)

lemma woe_masking:
  assumes "db = NaN \<or> (\<exists>g\<ge>0. db = Fin g)" and "dm = NaN \<or> (\<exists>d\<ge>0. dm = Fin d)"
  shows "replace_inf_zero (fl_log (fl_div db (replace_zero_nan dm))) =
         (case (db, dm) of
            (Fin g, Fin d) \<Rightarrow>
              if d = 0 then NaN else if g = 0 then Fin 0 else Fin (ln (g / d))
          | _ \<Rightarrow> NaN)"
proof -
  consider "dm = NaN" | "dm = Fin 0" | "db = NaN"
    | g d where "db = Fin g" "dm = Fin d" "0 \<le> g" "0 < d"
    using assms by (metis less_eq_real_def)
  then show ?thesis
  proof cases
    case 1
    then show ?thesis
      by (cases db) (simp_all add: replace_zero_nan_def replace_inf_zero_def fl_eq_def)
  next
    case 2
    then show ?thesis
      by (cases db) (simp_all add: replace_zero_nan_def replace_inf_zero_def fl_eq_def)
  next
    case 3
    then show ?thesis
      by (simp add: replace_zero_nan_def replace_inf_zero_def fl_eq_def)
  next
    case 4
    then show ?thesis
      by (auto simp: replace_zero_nan_def replace_inf_zero_def fl_eq_def divide_less_0_iff)
  qed
qed

lemma woe_row_of_shape:
  assumes tb: "tb = count_target ys 0" and tm: "tm = count_target ys 1"
    and r: "r = woe_row_of (zip xs ys) tb tm g"
  shows "(dist_buenos r = NaN \<or> (\<exists>g\<ge>0. dist_buenos r = Fin g))
       \<and> (dist_malos r = NaN \<or> (\<exists>d\<ge>0. dist_malos r = Fin d))
       \<and> WoE r = (case (dist_buenos r, dist_malos r) of
                    (Fin g, Fin d) \<Rightarrow>
                      if d = 0 then NaN else if g = 0 then Fin 0 else Fin (ln (g / d))
                  | _ \<Rightarrow> NaN)"
proof -
  let ?b = "count_in_group (zip xs ys) g 0" and ?m = "count_in_group (zip xs ys) g 1"
  have b: "0 \<le> ?b" "?b \<le> tb" and m: "0 \<le> ?m" "?m \<le> tm"
    using count_in_group_le count_in_group_nonneg tb tm by auto
  have db: "dist_buenos r = fl_div (fl_of_int ?b) (fl_of_int tb)"
    and dm: "dist_malos r = fl_div (fl_of_int ?m) (fl_of_int tm)"
    and w: "WoE r = replace_inf_zero (fl_log (fl_div (dist_buenos r)
                      (replace_zero_nan (dist_malos r))))"
    by (simp_all add: r woe_row_of_def Let_def)
  from share_shape [OF b] share_shape [OF m] woe_masking [of "dist_buenos r" "dist_malos r"]
  show ?thesis unfolding w db dm by blast
qed

lemma woe_table_rows:
  assumes "woe_table df var target = Inr (tabla, iv_total)" and "r \<in> set tabla"
  shows "(dist_buenos r = NaN \<or> (\<exists>g\<ge>0. dist_buenos r = Fin g))
       \<and> (dist_malos r = NaN \<or> (\<exists>d\<ge>0. dist_malos r = Fin d))
       \<and> WoE r = (case (dist_buenos r, dist_malos r) of
                    (Fin g, Fin d) \<Rightarrow>
                      if d = 0 then NaN else if g = 0 then Fin 0 else Fin (ln (g / d))
                  | _ \<Rightarrow> NaN)"
proof -
  from assms obtain vc tc g where
    "r = woe_row_of (zip (col_values vc) (col_values tc))
           (count_target (col_values tc) 0) (count_target (col_values tc) 1) g"
    by (auto simp: woe_table_def Let_def split: sum.splits)
  then show ?thesis by (rule woe_row_of_shape [OF refl refl])
qed

lemma ex_tipo_eval:
  "iv_woe ex_tipo ''tipo'' ''target'' None = (ex_tipo, Inr (ex_tipo_tabla, PInf))"
  by (simp add: iv_woe_eval ex_tipo_def ex_tipo_tabla_def)

text \<open>
  C1, as the code has it. In the table of \<^verbatim>\<open>iv_woe\<close> every share is missing or a
  number that is not negative, and the WoE of a group is \<open>ln (dist_good / dist_bad)\<close>
  when both shares are positive, 0 when the share of good rows is 0 and that of bad
  rows is positive (minus infinity replaced by 0), and missing (NaN), not 0, when the
  share of bad rows is 0 or one of the shares is missing.
\<close>

theorem iv_woe_WoE_by_cases:
  assumes "iv_woe df var target bins = (df', Inr (tabla, iv_total))"
    and "r \<in> set tabla"
  shows "(dist_buenos r = NaN \<or> (\<exists>g\<ge>0. dist_buenos r = Fin g))
       \<and> (dist_malos r = NaN \<or> (\<exists>d\<ge>0. dist_malos r = Fin d))
       \<and> WoE r = (case (dist_buenos r, dist_malos r) of
                    (Fin g, Fin d) \<Rightarrow>
                      if d = 0 then NaN else if g = 0 then Fin 0 else Fin (ln (g / d))
                  | _ \<Rightarrow> NaN)"
proof -
  from assms(1) obtain d where "woe_table d var target = Inr (tabla, iv_total)"
    by (auto simp: iv_woe_def Let_def split: option.splits if_splits sum.splits)
  from woe_table_rows [OF this assms(2)] show ?thesis .
qed

theorem iv_woe_WoE_by_cases_witness:
  "iv_woe ex_tipo ''tipo'' ''target'' None = (ex_tipo, Inr (ex_tipo_tabla, PInf))
   \<and> ex_tipo_tabla ! 1 \<in> set ex_tipo_tabla
   \<and> dist_buenos (ex_tipo_tabla ! 1) = Fin (1/2)
   \<and> dist_malos (ex_tipo_tabla ! 1) = Fin (1/2)
   \<and> WoE (ex_tipo_tabla ! 1) = Fin (ln ((1/2) / (1/2)))"
proof -
  have m: "ex_tipo_tabla ! 1 \<in> set ex_tipo_tabla" by (simp add: ex_tipo_tabla_def)
  from iv_woe_WoE_by_cases [OF ex_tipo_eval m] ex_tipo_eval m show ?thesis
    by (simp add: ex_tipo_tabla_def)
qed

text \<open>
  C1 as the specification states it fails: the group \<open>x\<close> has no bad row,
  so its share of bad rows is 0, and its WoE is NaN.
\<close>

theorem iv_woe_WoE_zero_counterexample:
  "dist_malos (hd (fst (projr (snd (iv_woe ex_tipo ''tipo'' ''target'' None))))) = Fin 0
   \<and> WoE (hd (fst (projr (snd (iv_woe ex_tipo ''tipo'' ''target'' None))))) = NaN
   \<and> WoE (hd (fst (projr (snd (iv_woe ex_tipo ''tipo'' ''target'' None))))) \<noteq> Fin 0"
  by (simp add: ex_tipo_eval ex_tipo_tabla_def)

lemma ex_ab_eval:
  "iv_woe ex_ab ''cat'' ''target'' None =
     (ex_ab,
      Inr ([\<lparr>key = Str ''A'', buenos = 2, malos = 0, dist_buenos = Fin 1, dist_malos = Fin 0,
             WoE = NaN, IV = NaN\<rparr>,
            \<lparr>key = Str ''B'', buenos = 0, malos = 2, dist_buenos = Fin 0, dist_malos = Fin 1,
             WoE = Fin 0, IV = PInf\<rparr>],
           PInf))"
  by (simp add: iv_woe_eval ex_ab_def)

text \<open>
  C2, as the code has it. On the example, the shares are 1 and 0 for \<open>A\<close> and 0 and 1
  for \<open>B\<close>; the WoE of \<open>A\<close> is NaN and that of \<open>B\<close> is 0; the IV of \<open>B\<close> is computed
  from the WoE before the infinity is replaced, so it is infinite, and so is the total.
\<close>

theorem iv_woe_example:
  "snd (iv_woe ex_ab ''cat'' ''target'' None) =
     Inr ([\<lparr>key = Str ''A'', buenos = 2, malos = 0, dist_buenos = Fin 1, dist_malos = Fin 0,
            WoE = NaN, IV = NaN\<rparr>,
           \<lparr>key = Str ''B'', buenos = 0, malos = 2, dist_buenos = Fin 0, dist_malos = Fin 1,
            WoE = Fin 0, IV = PInf\<rparr>],
          PInf)"
  by (simp add: ex_ab_eval)

text \<open>
  C2 as the specification states it fails: the WoE of \<open>A\<close> is not 0 and the total is
  not 0.
\<close>

theorem iv_woe_example_counterexample:
  "map WoE (fst (projr (snd (iv_woe ex_ab ''cat'' ''target'' None)))) \<noteq> [Fin 0, Fin 0]
   \<and> snd (projr (snd (iv_woe ex_ab ''cat'' ''target'' None))) \<noteq> Fin 0"
  by (simp add: ex_ab_eval)

lemma map_of_assign_other:
  "name \<noteq> var \<Longrightarrow> map_of (assign df var c) name = map_of df name"
  by (induction df) (auto simp: assign_def)

text \<open>
  C6, as the code has it. Without a bin count (\<^verbatim>\<open>None\<close> or 0) the call leaves the
  data frame as it was. With a bin count the assignment of line 140 replaces the column
  of the variable in the caller's data frame; every other column stays as it was.
\<close>

theorem iv_woe_frame:
  "(bins = None \<or> bins = Some 0 \<longrightarrow> fst (iv_woe df var target bins) = df)
   \<and> (\<forall>name. name \<noteq> var \<longrightarrow>
         lookup (fst (iv_woe df var target bins)) name = lookup df name)"
proof (intro conjI impI allI)
  assume "bins = None \<or> bins = Some 0"
  then show "fst (iv_woe df var target bins) = df"
    by (auto simp: iv_woe_def)
next
  fix name assume "name \<noteq> var"
  then have "map_of (fst (iv_woe df var target bins)) name = map_of df name"
    by (simp add: iv_woe_def Let_def map_of_assign_other split: option.splits sum.splits)
  then show "lookup (fst (iv_woe df var target bins)) name = lookup df name"
    by (simp add: lookup_def)
qed

theorem iv_woe_frame_witness:
  "fst (iv_woe ex_ab ''cat'' ''target'' None) = ex_ab
   \<and> ''target'' \<noteq> ''cat''
   \<and> lookup (fst (iv_woe ex_num ''x'' ''target'' (Some 2))) ''target''
       = lookup ex_num ''target''"
  using iv_woe_frame [of None ex_ab "''cat''" "''target''"]
    iv_woe_frame [of "Some 2" ex_num "''x''" "''target''"]
  by simp

text \<open>
  C6 as the specification states it fails: with two bins, the column \<open>x\<close> of the
  caller's data frame is replaced.
\<close>

theorem iv_woe_frame_counterexample:
  "fst (iv_woe ex_num ''x'' ''target'' (Some 2)) \<noteq> ex_num
   \<and> lookup (fst (iv_woe ex_num ''x'' ''target'' (Some 2))) ''x'' =
       Inr \<lparr>dtype = Category,
            cells = IvlCells [Some (0.997, 2.5), Some (0.997, 2.5), Some (2.5, 4), Some (2.5, 4)],
            categories = [Ivl 0.997 2.5, Ivl 2.5 4]\<rparr>"
  by (simp add: iv_woe_def lookup_def ex_num_def pd_cut_def dropna_def assign_def bins_of_def
      bin_edges_def linspace_def bin_of_def upt_rec numeral_2_eq_2 Let_def)

section \<open>The summaries when the selected rows have one target value\<close>

lemma length_value_counts: "length (value_counts ys) = card (set (dropna ys))"
  by (simp add: value_counts_def Let_def first_seen_def length_remdups_card_conv)

lemma set_masked: "set (masked sel ys) \<subseteq> set ys"
  by (auto simp: masked_def dest: set_zip_rightD)

lemma set_dropna: "set (dropna xs) = {v. Some v \<in> set xs}"
  by (induction xs) (auto simp: dropna_def split: option.splits)

lemma card_masked_le:
  "card (set (dropna (masked sel ys))) \<le> card (set (dropna ys))"
proof (rule card_mono)
  show "finite (set (dropna ys))" by simp
  show "set (dropna (masked sel ys)) \<subseteq> set (dropna ys)"
    using set_masked [of sel ys] by (auto simp: set_dropna)
qed

lemma target_block_cases:
  assumes "target \<noteq> ''proportion''" and "card (set (dropna ys)) \<le> 2"
  shows "(card (set (dropna ys)) < 2 \<and> target_block target ys = Inl IndexError)
       \<or> (card (set (dropna ys)) = 2 \<and> (\<exists>a b. target_block target ys = Inr [(target, a), (''proportion'', b)]))"
proof -
  have len: "length (value_counts ys) = card (set (dropna ys))" by (rule length_value_counts)
  show ?thesis
  proof (cases "value_counts ys")
    case Nil
    with len assms show ?thesis by (simp add: target_block_def)
  next
    case (Cons a as)
    note outer = Cons
    show ?thesis
    proof (cases as)
      case Nil
      with outer len assms show ?thesis by (simp add: target_block_def)
    next
      case (Cons b bs)
      with outer len assms have "bs = []" by (cases bs) auto
      with outer Cons len assms show ?thesis
        by (cases a; cases b) (simp add: target_block_def)
    qed
  qed
qed


lemma masked_nonempty_count:
  assumes "masked sel ys \<noteq> []"
  shows "0 < count_true sel"
proof -
  from assms obtain b y where "(b, y) \<in> set (zip sel ys)" "b"
    by (auto simp: masked_def filter_empty_conv)
  then have "True \<in> set sel" by (auto dest: set_zip_leftD)
  then have "filter (\<lambda>b. b) sel \<noteq> []" by (auto simp: filter_empty_conv)
  then show ?thesis by (simp add: count_true_def)
qed

lemma single_value_count:
  assumes "set (dropna (masked sel ys)) = {v}"
  shows "0 < count_true sel"
proof -
  from assms have "masked sel ys \<noteq> []" by (auto simp: dropna_def)
  then show ?thesis by (rule masked_nonempty_count)
qed

lemma null_loop_raises:
  assumes tgt: "lookup pd_loan target = Inr tc" "target \<noteq> ''proportion''"
      "card (set (dropna (col_values tc))) \<le> 2"
    and i: "lookup pd_loan i = Inr c"
      "set (dropna (masked (isnull c) (col_values tc))) = {v}"
  shows "\<forall>j \<in> set vars. \<exists>cj. lookup pd_loan j = Inr cj \<Longrightarrow> i \<in> set vars \<Longrightarrow>
         null_loop pd_loan target vars acc = Inl IndexError"
proof (induction vars arbitrary: acc)
  case Nil
  then show ?case by simp
next
  case (Cons j rest)
  from Cons.prems obtain cj where cj: "lookup pd_loan j = Inr cj" by auto
  have rest_cols: "\<forall>j \<in> set rest. \<exists>cj. lookup pd_loan j = Inr cj" using Cons.prems by simp
  let ?ys = "masked (isnull cj) (col_values tc)"
  have le2: "card (set (dropna ?ys)) \<le> 2"
    using card_masked_le [of "isnull cj" "col_values tc"] tgt(3) by simp
  show ?case
  proof (cases "0 < count_true (isnull cj)")
    case True
    from target_block_cases [OF tgt(2) le2]
    show ?thesis
    proof
      assume "card (set (dropna ?ys)) < 2 \<and> target_block target ?ys = Inl IndexError"
      then show ?thesis using cj True tgt(1) by simp
    next
      assume two: "card (set (dropna ?ys)) = 2
        \<and> (\<exists>a b. target_block target ?ys = Inr [(target, a), (''proportion'', b)])"
      then have "j \<noteq> i" using i cj by auto
      then have "i \<in> set rest" using Cons.prems by simp
      from Cons.IH [OF rest_cols this] two show ?thesis
        using cj True tgt(1) by auto
    qed
  next
    case False
    then have "j \<noteq> i" using single_value_count [OF i(2)] i(1) cj by auto
    then have "i \<in> set rest" using Cons.prems by simp
    from Cons.IH [OF rest_cols this] show ?thesis using cj False by simp
  qed
qed


lemma perc_positive:
  "0 < n \<Longrightarrow> fl_lt (Fin 0) (fl_div (fl_of_int k) (fl_of_int n)) \<longleftrightarrow> 0 < k"
  by (simp add: fl_of_int_def zero_less_divide_iff)

lemma outlier_loop_raises:
  assumes tgt: "lookup pd_loan target = Inr tc" "target \<noteq> ''proportion''"
      "card (set (dropna (col_values tc))) \<le> 2"
    and i: "lookup pd_loan i = Inr c" "cells c = NumCells xs"
      "set (dropna (masked (excess_mask multiplier xs) (col_values tc))) = {v}"
  shows "\<forall>j \<in> set vars. \<exists>cj xsj. lookup pd_loan j = Inr cj \<and> cells cj = NumCells xsj \<and> xsj \<noteq> []
         \<Longrightarrow> i \<in> set vars \<Longrightarrow>
         outlier_loop pd_loan target multiplier vars acc = Inl IndexError"
proof (induction vars arbitrary: acc)
  case Nil
  then show ?case by simp
next
  case (Cons j rest)
  from Cons.prems obtain cj xsj where cj: "lookup pd_loan j = Inr cj"
    "cells cj = NumCells xsj" "xsj \<noteq> []" by auto
  have rest_cols: "\<forall>j \<in> set rest. \<exists>cj xsj. lookup pd_loan j = Inr cj
      \<and> cells cj = NumCells xsj \<and> xsj \<noteq> []" using Cons.prems by simp
  have num: "numeric_cells cj = Inr xsj" using cj by (simp add: numeric_cells_def)
  have size: "0 < int (length xsj)" using cj by simp
  let ?m = "excess_mask multiplier xsj"
  let ?ys = "masked ?m (col_values tc)"
  have le2: "card (set (dropna ?ys)) \<le> 2"
    using card_masked_le [of ?m "col_values tc"] tgt(3) by simp
  show ?case
  proof (cases "0 < count_true ?m")
    case True
    then have pos: "fl_lt (Fin 0) (fl_div (fl_of_int (count_true ?m))
        (fl_of_int (int (length xsj))))" using perc_positive [OF size] by simp
    from target_block_cases [OF tgt(2) le2]
    show ?thesis
    proof
      assume "card (set (dropna ?ys)) < 2 \<and> target_block target ?ys = Inl IndexError"
      then show ?thesis using cj num pos tgt(1) by (simp add: Let_def)
    next
      assume two: "card (set (dropna ?ys)) = 2
        \<and> (\<exists>a b. target_block target ?ys = Inr [(target, a), (''proportion'', b)])"
      then have "j \<noteq> i" using i cj by auto
      then have "i \<in> set rest" using Cons.prems by simp
      from Cons.IH [OF rest_cols this] two show ?thesis
        using cj num pos tgt(1) by (auto simp: Let_def)
    qed
  next
    case False
    then have npos: "\<not> fl_lt (Fin 0) (fl_div (fl_of_int (count_true ?m))
        (fl_of_int (int (length xsj))))" using perc_positive [OF size] by simp
    from False have "j \<noteq> i" using single_value_count [OF i(3)] i(1,2) cj by auto
    then have "i \<in> set rest" using Cons.prems by simp
    from Cons.IH [OF rest_cols this] show ?thesis using cj num npos by (simp add: Let_def)
  qed
qed

text \<open>
  C10. Let the target be a column with at most two distinct values (and a name other
  than \<^verbatim>\<open>proportion\<close>), and let \<open>i\<close> be a listed variable. If all listed variables
  are columns and the rows where \<open>i\<close> is missing carry one single target value, then
  \<^verbatim>\<open>get_percent_null_values_target\<close> raises \<^verbatim>\<open>IndexError\<close>. If all listed
  variables are numeric columns with at least one row and the outlier rows of \<open>i\<close>
  carry one single target value, then \<^verbatim>\<open>get_deviation_of_mean_perc\<close> raises
  \<^verbatim>\<open>IndexError\<close>. Neither call returns a table.
\<close>

theorem single_target_value_raises:
  assumes "lookup pd_loan target = Inr tc" and "target \<noteq> ''proportion''"
    and "card (set (dropna (col_values tc))) \<le> 2"
    and "i \<in> set vars" and "lookup pd_loan i = Inr c"
  shows "((\<forall>j \<in> set vars. \<exists>cj. lookup pd_loan j = Inr cj)
          \<and> set (dropna (masked (isnull c) (col_values tc))) = {v}
          \<longrightarrow> get_percent_null_values_target pd_loan vars target = ([], Inl IndexError))
       \<and> ((\<forall>j \<in> set vars. \<exists>cj xsj. lookup pd_loan j = Inr cj
                \<and> cells cj = NumCells xsj \<and> xsj \<noteq> [])
          \<and> cells c = NumCells xs
          \<and> set (dropna (masked (excess_mask multiplier xs) (col_values tc))) = {v}
          \<longrightarrow> get_deviation_of_mean_perc pd_loan vars target multiplier
                = ([], Inl IndexError))"
proof (intro conjI impI)
  assume a: "(\<forall>j \<in> set vars. \<exists>cj. lookup pd_loan j = Inr cj)
          \<and> set (dropna (masked (isnull c) (col_values tc))) = {v}"
  then have "null_loop pd_loan target vars [] = Inl IndexError"
    using null_loop_raises [OF assms(1,2,3) assms(5), of v vars "[]"] assms(4) by blast
  then show "get_percent_null_values_target pd_loan vars target = ([], Inl IndexError)"
    by (simp add: get_percent_null_values_target_def)
next
  assume a: "(\<forall>j \<in> set vars. \<exists>cj xsj. lookup pd_loan j = Inr cj
                \<and> cells cj = NumCells xsj \<and> xsj \<noteq> [])
          \<and> cells c = NumCells xs
          \<and> set (dropna (masked (excess_mask multiplier xs) (col_values tc))) = {v}"
  then have "outlier_loop pd_loan target multiplier vars [] = Inl IndexError"
    using outlier_loop_raises [OF assms(1,2,3) assms(5), of xs multiplier v vars "[]"] assms(4)
    by blast
  then show "get_deviation_of_mean_perc pd_loan vars target multiplier = ([], Inl IndexError)"
    by (simp add: get_deviation_of_mean_perc_def)
qed

lemmas summary_eval =
  lookup_def col_values_def dropna_def fl_of_int_def isnull_def count_true_def masked_def
  target_block_def value_counts_def first_seen_def

theorem single_target_value_raises_witness:
  "set (dropna (masked (isnull \<lparr>dtype = Float64,
               cells = NumCells [Some 1, None, Some 3, Some 4, None,
                                 Some 1, Some 1, Some 1, Some 1, Some 1],
               categories = []\<rparr>) [Some (Num 0), Some (Num 0), Some (Num 0), Some (Num 1), Some (Num 0),
                                      Some (Num 0), Some (Num 0), Some (Num 0), Some (Num 0), Some (Num 0)])) = {Num 0}
   \<and> get_percent_null_values_target ex_nulos_uno [''x''] ''target'' = ([], Inl IndexError)
   \<and> excess_mask (Fin (1/2)) [Some 0, Some 2, Some 4] = [True, False, True]
   \<and> get_deviation_of_mean_perc ex_atipicos [''x''] ''target'' (Fin (1/2)) = ([], Inl IndexError)"
proof -
  let ?x = "\<lparr>dtype = Float64,
               cells = NumCells [Some 1, None, Some 3, Some 4, None,
                                 Some 1, Some 1, Some 1, Some 1, Some 1],
               categories = []\<rparr>"
  let ?t = "\<lparr>dtype = Int64,
                    cells = NumCells [Some 0, Some 0, Some 0, Some 1, Some 0,
                                      Some 0, Some 0, Some 0, Some 0, Some 0],
                    categories = []\<rparr>"
  have t: "lookup ex_nulos_uno ''target'' = Inr ?t" by (simp add: ex_nulos_uno_def lookup_def)
  have x: "lookup ex_nulos_uno ''x'' = Inr ?x" by (simp add: ex_nulos_uno_def lookup_def)
  have p: "''target'' \<noteq> ''proportion''" by simp
  have "set (dropna (col_values ?t)) = {Num 0, Num 1}"
    by (auto simp: col_values_def dropna_def)
  then have two: "card (set (dropna (col_values ?t))) \<le> 2" by simp
  have m: "''x'' \<in> set [''x'']" by simp
  have one: "set (dropna (masked (isnull ?x) (col_values ?t))) = {Num 0}"
    by (simp add: col_values_def dropna_def isnull_def masked_def)
  have cols: "\<forall>j \<in> set [''x'']. \<exists>cj. lookup ex_nulos_uno j = Inr cj" using x by simp
  from single_target_value_raises [OF t p two m x, of "Num 0"] one cols
  have r1: "get_percent_null_values_target ex_nulos_uno [''x''] ''target'' = ([], Inl IndexError)"
    by blast
  let ?y = "\<lparr>dtype = Float64, cells = NumCells [Some 0, Some 2, Some 4], categories = []\<rparr>"
  let ?u = "\<lparr>dtype = Int64, cells = NumCells [Some 1, Some 0, Some 1], categories = []\<rparr>"
  have t': "lookup ex_atipicos ''target'' = Inr ?u" by (simp add: ex_atipicos_def lookup_def)
  have x': "lookup ex_atipicos ''x'' = Inr ?y" by (simp add: ex_atipicos_def lookup_def)
  have "set (dropna (col_values ?u)) = {Num 0, Num 1}"
    by (auto simp: col_values_def dropna_def)
  then have two': "card (set (dropna (col_values ?u))) \<le> 2" by simp
  have em: "excess_mask (Fin (1/2)) [Some 0, Some 2, Some 4] = [True, False, True]"
    by (simp add: excess_mask_def limits_def series_mean_def series_std_def dropna_def
        out_interval_def fl_sub_def power2_eq_square)
  have one': "set (dropna (masked (excess_mask (Fin (1/2)) [Some 0, Some 2, Some 4]) (col_values ?u))) = {Num 1}"
    by (simp add: em col_values_def dropna_def masked_def)
  have cols': "\<forall>j \<in> set [''x'']. \<exists>cj xsj. lookup ex_atipicos j = Inr cj
                \<and> cells cj = NumCells xsj \<and> xsj \<noteq> []" using x' by simp
  have c': "cells ?y = NumCells [Some 0, Some 2, Some 4]" by simp
  from single_target_value_raises [OF t' p two' m x', of "Num 1" "[Some 0, Some 2, Some 4]" "Fin (1/2)"]
    one' cols' c'
  have r2: "get_deviation_of_mean_perc ex_atipicos [''x''] ''target'' (Fin (1/2)) = ([], Inl IndexError)"
    by blast
  from one r1 em r2 show ?thesis by (simp add: col_values_def)
qed

section \<open>The summary of missing values\<close>

text \<open>
  What the summary records: every row of the frame that the loop returns belongs to a
  listed variable with at least one missing cell, and holds the number of its missing
  cells and their share of all rows.
\<close>

lemma null_loop_rows:
  "null_loop pd_loan target vars acc = Inr rows \<Longrightarrow>
   \<exists>new. rows = acc @ new
     \<and> (\<forall>r \<in> set new. variable r \<in> set vars
           \<and> (\<exists>c. lookup pd_loan (variable r) = Inr c
                  \<and> 0 < count_true (isnull c)
                  \<and> sum_null_values r = count_true (isnull c)
                  \<and> porcentaje_sum_null_values r =
                      fl_div (fl_of_int (count_true (isnull c)))
                             (fl_of_int (int (length (col_values c))))))"
proof (induction vars arbitrary: acc)
  case Nil
  then show ?case by simp
next
  case (Cons i rest)
  from Cons.prems obtain c where c: "lookup pd_loan i = Inr c"
    by (auto split: sum.splits)
  show ?case
  proof (cases "0 < count_true (isnull c)")
    case True
    with Cons.prems c obtain tc block where
      run: "null_loop pd_loan target rest
              (acc @ map (\<lambda>(label, cs).
                      \<lparr>target_cells = cs, variable = i,
                       porcentaje_sum_null_values =
                         fl_div (fl_of_int (count_true (isnull c)))
                                (fl_of_int (int (length (col_values c)))),
                       sum_null_values = count_true (isnull c)\<rparr>)
                   (filter (\<lambda>(label, cs). label \<noteq> ''index'') block)) = Inr rows"
      by (auto split: sum.splits)
    let ?blk = "map (\<lambda>(label, cs).
                      \<lparr>target_cells = cs, variable = i,
                       porcentaje_sum_null_values =
                         fl_div (fl_of_int (count_true (isnull c)))
                                (fl_of_int (int (length (col_values c)))),
                       sum_null_values = count_true (isnull c)\<rparr>)
                   (filter (\<lambda>(label, cs). label \<noteq> ''index'') block)"
    from Cons.IH [OF run] obtain new where new: "rows = (acc @ ?blk) @ new"
      "\<forall>r \<in> set new. variable r \<in> set rest
           \<and> (\<exists>c. lookup pd_loan (variable r) = Inr c
                  \<and> 0 < count_true (isnull c)
                  \<and> sum_null_values r = count_true (isnull c)
                  \<and> porcentaje_sum_null_values r =
                      fl_div (fl_of_int (count_true (isnull c)))
                             (fl_of_int (int (length (col_values c)))))" by blast
    have blk: "\<forall>r \<in> set ?blk. variable r = i
        \<and> sum_null_values r = count_true (isnull c)
        \<and> porcentaje_sum_null_values r =
                      fl_div (fl_of_int (count_true (isnull c)))
                             (fl_of_int (int (length (col_values c))))" by auto
    have "\<forall>r \<in> set (?blk @ new). variable r \<in> set (i # rest)
           \<and> (\<exists>c. lookup pd_loan (variable r) = Inr c
                  \<and> 0 < count_true (isnull c)
                  \<and> sum_null_values r = count_true (isnull c)
                  \<and> porcentaje_sum_null_values r =
                      fl_div (fl_of_int (count_true (isnull c)))
                             (fl_of_int (int (length (col_values c)))))"
    proof
      fix r assume "r \<in> set (?blk @ new)"
      then have "r \<in> set ?blk \<or> r \<in> set new" by (simp only: set_append Un_iff)
      then show "variable r \<in> set (i # rest)
           \<and> (\<exists>c. lookup pd_loan (variable r) = Inr c
                  \<and> 0 < count_true (isnull c)
                  \<and> sum_null_values r = count_true (isnull c)
                  \<and> porcentaje_sum_null_values r =
                      fl_div (fl_of_int (count_true (isnull c)))
                             (fl_of_int (int (length (col_values c)))))"
      proof
        assume "r \<in> set ?blk"
        with blk have "variable r = i" "sum_null_values r = count_true (isnull c)"
          "porcentaje_sum_null_values r =
             fl_div (fl_of_int (count_true (isnull c)))
                    (fl_of_int (int (length (col_values c))))" by blast+
        with c True show ?thesis by simp
      next
        assume "r \<in> set new"
        with new(2) show ?thesis by auto
      qed
    qed
    moreover have "rows = acc @ (?blk @ new)" using new(1) by simp
    ultimately show ?thesis by blast
  next
    case False
    with Cons.prems c have "null_loop pd_loan target rest acc = Inr rows" by simp
    from Cons.IH [OF this] show ?thesis by auto
  qed
qed

text \<open>
  Two of the ten rows of \<open>x\<close> are missing. When they carry both target values, the
  rows of the summary hold the count 2 and the rate 0.2 (the frame has two rows for a
  variable, since no row is labelled \<^verbatim>\<open>index\<close>: the target values and their
  shares).
\<close>

lemma null_summary_two_of_ten_returns:
  "get_percent_null_values_target ex_nulos_dos [''x''] ''target'' =
  ([], Inr [\<lparr>target_cells = [(Num 1, Num 1), (Num 0, Num 0)], variable = ''x'', porcentaje_sum_null_values = Fin 0.2, sum_null_values = 2\<rparr>,
            \<lparr>target_cells = [(Num 1, Num (1/2)), (Num 0, Num (1/2))], variable = ''x'', porcentaje_sum_null_values = Fin 0.2, sum_null_values = 2\<rparr>])"
  by (simp add: summary_eval ex_nulos_dos_def get_percent_null_values_target_def)

text \<open>
  C7. For a column with two of ten rows missing the summary is to return a row with the
  count 2 and the rate 0.2. When the two missing rows carry the same target value the
  code does not: the call raises \<^verbatim>\<open>IndexError\<close> and returns no row.
\<close>

theorem null_summary_two_of_ten_raises:
  "get_percent_null_values_target ex_nulos_uno [''x''] ''target'' = ([], Inl IndexError)"
  by (simp add: summary_eval ex_nulos_uno_def get_percent_null_values_target_def)

section \<open>Properties of Cramer's V\<close>

lemma fl_add_commute: "fl_add a b = fl_add b a"
  by (cases a; cases b; simp)





























































































end
